theory Spec2Isabelle
  imports Main "HOL-Library.Sublist"
begin

section \<open>Python strings\<close>

text \<open>
  A Python \<^verbatim>\<open>str\<close> is a sequence of Unicode code points. It is modelled as a list of
  natural numbers (the code points), so that \<^verbatim>\<open>str.strip()\<close> can be given its real
  whitespace set and the non-ASCII label punctuation of the source has a value.
  ASCII literals of the source are written \<open>ord_str ''...''\<close>.
\<close>

type_synonym pystr = "nat list"

type_synonym bytes = "nat list"

definition ord_str :: "string \<Rightarrow> pystr" where
  "ord_str s = map of_char s"

text \<open>The code points that \<^verbatim>\<open>str.strip()\<close> removes (those with \<^verbatim>\<open>str.isspace()\<close>).\<close>

definition isspace :: "nat \<Rightarrow> bool" where
  "isspace c \<longleftrightarrow>
     (9 \<le> c \<and> c \<le> 13) \<or> (28 \<le> c \<and> c \<le> 32) \<or> c = 133 \<or> c = 160 \<or> c = 5760
     \<or> (8192 \<le> c \<and> c \<le> 8202) \<or> c = 8232 \<or> c = 8233 \<or> c = 8239 \<or> c = 8287
     \<or> c = 12288"

definition lstrip :: "pystr \<Rightarrow> pystr" where
  "lstrip s = dropWhile isspace s"

definition rstrip :: "pystr \<Rightarrow> pystr" where
  "rstrip s = rev (dropWhile isspace (rev s))"

definition strip :: "pystr \<Rightarrow> pystr" where
  "strip s = rstrip (lstrip s)"

text \<open>\<^verbatim>\<open>s.split(sep)\<close> for a one-character separator: \<^verbatim>\<open>"".split("\n") == [""]\<close>.\<close>

fun split_on :: "nat \<Rightarrow> pystr \<Rightarrow> pystr list" where
  "split_on sep [] = [[]]"
| "split_on sep (c # cs) =
     (if c = sep then [] # split_on sep cs
      else (case split_on sep cs of [] \<Rightarrow> [[c]] | l # ls \<Rightarrow> (c # l) # ls))"

text \<open>\<^verbatim>\<open>sep.join(xs)\<close>.\<close>

fun str_join :: "pystr \<Rightarrow> pystr list \<Rightarrow> pystr" where
  "str_join sep [] = []"
| "str_join sep [x] = x"
| "str_join sep (x # y # ys) = x @ sep @ str_join sep (y # ys)"

definition newline :: nat where
  "newline = 10"

text \<open>Python list indexing \<^verbatim>\<open>xs[i]\<close>: negative indices count from the end, anything
  else out of range raises \<^verbatim>\<open>IndexError\<close> (the value \<open>None\<close>).\<close>

definition py_index :: "'a list \<Rightarrow> int \<Rightarrow> 'a option" where
  "py_index xs i =
     (let n = int (length xs) in
      if 0 \<le> i \<and> i < n then Some (xs ! nat i)
      else if - n \<le> i \<and> i < 0 then Some (xs ! nat (n + i))
      else None)"


section \<open>Data model\<close>

text \<open>A cell's \<^verbatim>\<open>source\<close> is either one string or a list of strings (state.py,
  cell\_processors.py lines 49 and 162 test \<^verbatim>\<open>isinstance(original_source, list)\<close>).\<close>

datatype cell_source = Str pystr | Lines "pystr list"

text \<open>A cell dictionary: the two keys the program reads, and the remaining keys
  (metadata, outputs, ...) which \<^verbatim>\<open>copy.deepcopy\<close> carries over untouched.\<close>

record cell =
  cell_type :: pystr
  source :: cell_source
  cell_rest :: "(pystr \<times> pystr) list"

text \<open>The notebook dictionary. \<open>cells = None\<close> is a dictionary without the key
  \<^verbatim>\<open>"cells"\<close>, as the initial \<^verbatim>\<open>"notebook_content": {}\<close> of workflow.py line 115.\<close>

record notebook =
  cells :: "cell list option"
  nb_rest :: "(pystr \<times> pystr) list"

text \<open>Python exceptions, with the text \<^verbatim>\<open>str(e)\<close> where the program formats it.\<close>

datatype exn =
    KeyError pystr
  | IndexError
  | FileNotFoundError pystr
  | Exception pystr

fun str_exn :: "exn \<Rightarrow> pystr" where
  "str_exn (KeyError k) = ord_str [CHR 0x27] @ k @ ord_str [CHR 0x27]"
| "str_exn IndexError = ord_str ''list index out of range''"
| "str_exn (FileNotFoundError m) = m"
| "str_exn (Exception m) = m"

text \<open>The values written to \<^verbatim>\<open>state["error_message"]\<close>, one constructor per message of
  the source. Every message of the source is a non-empty string, so a recorded error is
  always truthy in \<^verbatim>\<open>if state.get("error_message")\<close>.\<close>

datatype error =
    Cell_index_out_of_range
  | Expected_markdown_cell pystr
  | Expected_code_cell pystr
  | Error_processing_markdown_cell exn
  | Error_processing_code_cell exn
  | Error_in_routing exn
  | Error_skipping_cell exn
  | Input_file_not_found pystr
  | Error_loading_notebook exn
  | Error_saving_notebook exn

text \<open>\<^verbatim>\<open>AgentState\<close> of state.py.\<close>

record state =
  input_path :: pystr
  output_path :: pystr
  notebook_content :: notebook
  processed_cells :: "cell list"
  target_language :: pystr
  current_cell_index :: int
  total_cells :: int
  error_message :: "error option"


section \<open>The world outside the program\<close>

text \<open>
  Everything the program obtains from a library or from the outside is a field of \<open>env\<close>:
  the three chat completions of llm\_client.py (a call raises, or returns the message
  content, which may be \<^verbatim>\<open>None\<close>), the label tables of config.py, base64 decoding, the
  HTTP request, the file system (which paths exist, and what opening and reading a path
  gives: its bytes, or the exception raised for a path that cannot be read), the path
  functions of \<^verbatim>\<open>os.path\<close> and \<^verbatim>\<open>pathlib\<close>, and reading and writing a notebook with
  nbformat.
  Each is a function of its arguments: the same request gets the same answer throughout
  a run.
\<close>

record response =
  status_code :: int
  content :: bytes

record env =
  chat_translate :: "pystr \<Rightarrow> pystr \<Rightarrow> exn + pystr option"
  chat_annotate :: "pystr \<Rightarrow> pystr \<Rightarrow> exn + pystr option"
  chat_describe :: "bytes \<Rightarrow> pystr \<Rightarrow> exn + pystr option"
  get_translation_label :: "pystr \<Rightarrow> pystr"
  get_description_label :: "pystr \<Rightarrow> pystr"
  b64decode :: "pystr \<Rightarrow> exn + bytes"
  requests_get :: "pystr \<Rightarrow> nat \<Rightarrow> exn + response"
  path_exists :: "pystr \<Rightarrow> bool"
  read_file :: "pystr \<Rightarrow> exn + bytes"
  abspath :: "pystr \<Rightarrow> pystr"
  dirname :: "pystr \<Rightarrow> pystr"
  path_join :: "pystr \<Rightarrow> pystr \<Rightarrow> pystr"
  nbformat_read :: "pystr \<Rightarrow> exn + notebook"
  translated_path :: "pystr \<Rightarrow> pystr"
  nbformat_write :: "pystr \<Rightarrow> notebook \<Rightarrow> exn option"


section \<open>llm\_client.py: the Gateway\<close>

text \<open>
  Each method wraps its chat completion in \<^verbatim>\<open>try ... except Exception\<close> and returns a
  string in every case (lines 46-61, 90-105, 127-150): the result is always \<open>Inr\<close>. The
  type keeps the error branch because the callers wrap these calls in \<^verbatim>\<open>try\<close> blocks of
  their own. \<^verbatim>\<open>content.strip() if content else text\<close>: a \<^verbatim>\<open>None\<close> or empty content is
  falsy.
\<close>

definition translate_text :: "env \<Rightarrow> pystr \<Rightarrow> pystr \<Rightarrow> exn + pystr" where
  "translate_text w text lang =
     (case chat_translate w text lang of
        Inl e \<Rightarrow> Inr text
      | Inr None \<Rightarrow> Inr text
      | Inr (Some c) \<Rightarrow> Inr (if c = [] then text else strip c))"

definition add_code_comments :: "env \<Rightarrow> pystr \<Rightarrow> pystr \<Rightarrow> exn + pystr" where
  "add_code_comments w code lang =
     (case chat_annotate w code lang of
        Inl e \<Rightarrow> Inr code
      | Inr None \<Rightarrow> Inr code
      | Inr (Some c) \<Rightarrow> Inr (if c = [] then code else strip c))"

definition describe_image :: "env \<Rightarrow> bytes \<Rightarrow> pystr \<Rightarrow> exn + pystr" where
  "describe_image w image_data lang =
     (case chat_describe w image_data lang of
        Inl e \<Rightarrow> Inr (ord_str ''[Unable to generate image description: '' @ str_exn e @ ord_str '']'')
      | Inr None \<Rightarrow> Inr (ord_str ''[Unable to generate image description]'')
      | Inr (Some c) \<Rightarrow>
          Inr (if c = [] then ord_str ''[Unable to generate image description]'' else strip c))"


section \<open>cell\_processors.py: the code cell\<close>

text \<open>Lines 172-179: the clean-up of a code-fence wrapping.\<close>

definition strip_fences :: "pystr \<Rightarrow> pystr" where
  "strip_fences enhanced_code =
     (let e1 = strip enhanced_code;
          e2 = (if prefix (ord_str ''```python'') e1 then drop 9 e1
                else if prefix (ord_str ''```'') e1 then drop 3 e1
                else e1);
          e3 = (if suffix (ord_str ''```'') e2 then take (length e2 - 3) e2 else e2)
      in strip e3)"

text \<open>Lines 158-186: the new \<^verbatim>\<open>source\<close> of a code cell. The inner \<^verbatim>\<open>try\<close> is the case
  distinction on the result of \<open>add_code_comments\<close>; its handler keeps
  \<^verbatim>\<open>original_source\<close>.\<close>

definition code_content_of :: "cell_source \<Rightarrow> pystr" where
  "code_content_of original_source =
     (case original_source of Lines ls \<Rightarrow> concat ls | Str t \<Rightarrow> t)"

definition code_cell_source :: "env \<Rightarrow> pystr \<Rightarrow> cell_source \<Rightarrow> cell_source" where
  "code_cell_source w lang original_source =
     (case add_code_comments w (code_content_of original_source) lang of
        Inr enhanced_code \<Rightarrow> Str (strip_fences enhanced_code)
      | Inl e \<Rightarrow> original_source)"

definition set_error :: "error \<Rightarrow> state \<Rightarrow> state" where
  "set_error e s = s\<lparr>error_message := Some e\<rparr>"

definition append_cell :: "cell \<Rightarrow> state \<Rightarrow> state" where
  "append_cell c s =
     s\<lparr>processed_cells := processed_cells s @ [c],
       current_cell_index := current_cell_index s + 1\<rparr>"

definition process_code_cell :: "env \<Rightarrow> state \<Rightarrow> state" where
  "process_code_cell w s =
     (case cells (notebook_content s) of
        None \<Rightarrow> set_error (Error_processing_code_cell (KeyError (ord_str ''cells''))) s
      | Some cs \<Rightarrow>
          if current_cell_index s \<ge> int (length cs) then set_error Cell_index_out_of_range s
          else (case py_index cs (current_cell_index s) of
             None \<Rightarrow> set_error (Error_processing_code_cell IndexError) s
           | Some c \<Rightarrow>
               if cell_type c \<noteq> ord_str ''code'' then set_error (Expected_code_cell (cell_type c)) s
               else append_cell (c\<lparr>source := code_cell_source w (target_language s) (source c)\<rparr>) s))"


section \<open>llm\_client.py: the Image Resolver\<close>

text \<open>
  \<open>get_image_data\<close> (lines 152-195) returns the bytes or raises. The model also returns the
  accesses to the network and the file system that the call performs, in order, so that
  "never attempts network or filesystem access" is a statement about the result.
  \<^verbatim>\<open>os.path.exists(p)\<close> is \<open>path_exists\<close>, and \<^verbatim>\<open>open(p, 'rb')\<close> with \<^verbatim>\<open>f.read()\<close> is
  \<open>read_file\<close>: a path that exists may still fail to be read (a directory, a file
  without permission), and that exception leaves the function like any other. The
  handler at line 192 prints and raises the same exception again.
\<close>

text \<open>\<^verbatim>\<open>response.raise_for_status()\<close> of the HTTP library: it raises \<^verbatim>\<open>HTTPError\<close> for a status
  code from 400 to 599 and returns for every other status.\<close>

definition raise_for_status :: "response \<Rightarrow> exn option" where
  "raise_for_status r =
     (if 400 \<le> status_code r \<and> status_code r < 600
      then Some (Exception (ord_str ''HTTPError''))
      else None)"

datatype access = Http_get pystr nat | Path_exists pystr | Read_file pystr

definition not_found_message :: "pystr \<Rightarrow> pystr \<Rightarrow> pystr" where
  "not_found_message src notebook_dir =
     ord_str ''Image file not found: '' @ src @
     ord_str '' (tried absolute and relative to '' @ notebook_dir @ ord_str '')''"

definition get_image_data :: "env \<Rightarrow> pystr \<Rightarrow> pystr option \<Rightarrow> access list \<times> (exn + bytes)" where
  "get_image_data w src ip =
     (if prefix (ord_str ''data:image/'') src then
        (case py_index (split_on 44 src) 1 of
           None \<Rightarrow> ([], Inl IndexError)
         | Some base64_data \<Rightarrow> ([], b64decode w base64_data))
      else if prefix (ord_str ''http://'') src \<or> prefix (ord_str ''https://'') src then
        ([Http_get src 30],
         (case requests_get w src 30 of
            Inl e \<Rightarrow> Inl e
          | Inr r \<Rightarrow> (case raise_for_status r of Some e \<Rightarrow> Inl e | None \<Rightarrow> Inr (content r))))
      else if path_exists w src then
        ([Path_exists src, Read_file src], read_file w src)
      else
        (case ip of
           Some p \<Rightarrow>
             (let notebook_dir = dirname w (abspath w p);
                  relative_path = path_join w notebook_dir src
              in if path_exists w relative_path then
                   ([Path_exists src, Path_exists relative_path, Read_file relative_path],
                    read_file w relative_path)
                 else
                   ([Path_exists src, Path_exists relative_path],
                    Inl (FileNotFoundError (not_found_message src notebook_dir))))
         | None \<Rightarrow>
             ([Path_exists src],
              Inl (FileNotFoundError (ord_str ''Image file not found: '' @ src)))))"


section \<open>cell\_processors.py: the markdown cell\<close>

text \<open>Lines 55-71: grouping the lines into sections; the loop state is
  \<^verbatim>\<open>(current_section, sections)\<close>.\<close>

definition is_blank :: "pystr \<Rightarrow> bool" where
  "is_blank line \<longleftrightarrow> strip line = []"

definition is_heading :: "pystr \<Rightarrow> bool" where
  "is_heading line \<longleftrightarrow> prefix (ord_str ''#'') line"

fun group_lines :: "pystr list \<Rightarrow> pystr list \<Rightarrow> pystr list list \<Rightarrow> pystr list \<times> pystr list list" where
  "group_lines [] current_section sections = (current_section, sections)"
| "group_lines (line # rest) current_section sections =
     (if is_blank line \<or> is_heading line then
        (let sections1 = (if current_section = [] then sections else sections @ [current_section]);
             current1 = (if is_blank line then [] else [line])
         in group_lines rest current1 sections1)
      else group_lines rest (current_section @ [line]) sections)"

definition sections_of :: "pystr list \<Rightarrow> pystr list list" where
  "sections_of source_lines =
     (case group_lines source_lines [] [] of
        (current_section, sections) \<Rightarrow>
          if current_section = [] then sections else sections @ [current_section])"

text \<open>Line 46: the pattern \<^verbatim>\<open>!\[([^\]]*)\]\(([^)]+)\)\<close>. Both groups are negated classes
  followed by the one character they exclude, so a match at a position is determined
  without backtracking: the alt text runs to the first \<^verbatim>\<open>]\<close>, the reference to the first
  \<^verbatim>\<open>)\<close> and is not empty. The third component is the length of the match.\<close>

definition match_image :: "pystr \<Rightarrow> (pystr \<times> pystr \<times> nat) option" where
  "match_image s =
     (if prefix (ord_str ''!['') s then
        (let r1 = drop 2 s;
             alt_text = takeWhile (\<lambda>c. c \<noteq> 93) r1;
             r2 = drop (length alt_text) r1
         in if prefix (ord_str '']('') r2 then
              (let r3 = drop 2 r2;
                   src = takeWhile (\<lambda>c. c \<noteq> 41) r3;
                   r4 = drop (length src) r3
               in if src = [] \<or> r4 = [] then None
                  else Some (alt_text, src, length alt_text + length src + 5))
            else None)
      else None)"

text \<open>\<^verbatim>\<open>image_pattern.findall(section_text)\<close>: the matches from left to right, the search
  resuming after each match. The first argument counts the characters of the last
  match still to be passed over.\<close>

fun findall_images :: "nat \<Rightarrow> pystr \<Rightarrow> (pystr \<times> pystr) list" where
  "findall_images k [] = []"
| "findall_images (Suc k) (c # cs) = findall_images k cs"
| "findall_images 0 (c # cs) =
     (case match_image (c # cs) of
        Some (alt_text, src, n) \<Rightarrow> (alt_text, src) # findall_images (n - 1) cs
      | None \<Rightarrow> findall_images 0 cs)"

text \<open>Lines 93 and 108: the label between \<^verbatim>\<open>**\<close> markers, followed inside them by the
  full-width colon U+FF1A (code point 65306).\<close>

definition bold_label :: "pystr \<Rightarrow> pystr" where
  "bold_label label = ord_str ''**'' @ label @ [65306] @ ord_str ''**''"

text \<open>Lines 85-97: the lines appended for one image match; any exception skips the image.\<close>

definition image_lines :: "env \<Rightarrow> pystr \<Rightarrow> pystr option \<Rightarrow> pystr \<times> pystr \<Rightarrow> pystr list" where
  "image_lines w lang ip m =
     (case m of (alt_text, src) \<Rightarrow>
        (case snd (get_image_data w src ip) of
           Inl e \<Rightarrow> []
         | Inr image_data \<Rightarrow>
            (case describe_image w image_data lang of
               Inl e \<Rightarrow> []
             | Inr description \<Rightarrow> [[], bold_label (get_description_label w lang), description])))"

text \<open>Lines 100-112: the translation block of a section.\<close>

definition has_text :: "pystr list \<Rightarrow> bool" where
  "has_text section \<longleftrightarrow> list_ex (\<lambda>line. strip line \<noteq> [] \<and> \<not> prefix (ord_str ''!'') line) section"

definition translation_lines :: "env \<Rightarrow> pystr \<Rightarrow> pystr list \<Rightarrow> pystr list" where
  "translation_lines w lang section =
     (if has_text section then
        (case translate_text w (str_join [newline] section) lang of
           Inl e \<Rightarrow> []
         | Inr translation \<Rightarrow> [[], bold_label (get_translation_label w lang), translation])
      else [])"

text \<open>Lines 74-115: the lines one section contributes to \<^verbatim>\<open>new_source_lines\<close>.\<close>

definition process_section :: "env \<Rightarrow> pystr \<Rightarrow> pystr option \<Rightarrow> pystr list \<Rightarrow> pystr list" where
  "process_section w lang ip section =
     (if section = [] then []
      else section
           @ concat (map (image_lines w lang ip) (findall_images 0 (str_join [newline] section)))
           @ translation_lines w lang section
           @ [[]])"

text \<open>Lines 49-118: the new \<^verbatim>\<open>source\<close> of a markdown cell.\<close>

definition source_text_of :: "cell_source \<Rightarrow> pystr" where
  "source_text_of original_source =
     (case original_source of Lines ls \<Rightarrow> concat ls | Str t \<Rightarrow> t)"

definition markdown_source_lines :: "env \<Rightarrow> pystr \<Rightarrow> pystr option \<Rightarrow> cell_source \<Rightarrow> pystr list" where
  "markdown_source_lines w lang ip original_source =
     concat (map (process_section w lang ip)
       (sections_of (split_on newline (source_text_of original_source))))"

definition process_markdown_cell :: "env \<Rightarrow> state \<Rightarrow> state" where
  "process_markdown_cell w s =
     (case cells (notebook_content s) of
        None \<Rightarrow> set_error (Error_processing_markdown_cell (KeyError (ord_str ''cells''))) s
      | Some cs \<Rightarrow>
          if current_cell_index s \<ge> int (length cs) then set_error Cell_index_out_of_range s
          else (case py_index cs (current_cell_index s) of
             None \<Rightarrow> set_error (Error_processing_markdown_cell IndexError) s
           | Some c \<Rightarrow>
               if cell_type c \<noteq> ord_str ''markdown''
               then set_error (Expected_markdown_cell (cell_type c)) s
               else append_cell
                 (c\<lparr>source := Lines (markdown_source_lines w (target_language s)
                                      (Some (input_path s)) (source c))\<rparr>) s))"


section \<open>cell\_processors.py: the router and the skip step\<close>

text \<open>The strings \<open>route_cell_processing\<close> returns.\<close>

datatype route = END | Rebuild_notebook | Process_markdown_cell | Process_code_cell
  | Skip_unsupported_cell

text \<open>Lines 201-257. The function returns the name of the next node and, for a cell that
  is neither markdown nor code, also changes the dictionary it was given: the result is
  the pair of the name and that dictionary after the call. An exception after the cell
  was appended (line 244) leaves the appended cell and the advanced index in it. What
  of these changes reaches the next step is decided by the graph (below).\<close>

definition route_by_type :: "cell \<Rightarrow> route" where
  "route_by_type c =
     (if cell_type c = ord_str ''markdown'' then Process_markdown_cell
      else if cell_type c = ord_str ''code'' then Process_code_cell
      else Skip_unsupported_cell)"

definition route_cell_processing :: "state \<Rightarrow> route \<times> state" where
  "route_cell_processing s =
     (if error_message s \<noteq> None then (END, s)
      else if current_cell_index s \<ge> total_cells s then (Rebuild_notebook, s)
      else (case cells (notebook_content s) of
         None \<Rightarrow> (END, set_error (Error_in_routing (KeyError (ord_str ''cells''))) s)
       | Some cs \<Rightarrow>
          (case py_index cs (current_cell_index s) of
             None \<Rightarrow> (END, set_error (Error_in_routing IndexError) s)
           | Some c \<Rightarrow>
              if cell_type c = ord_str ''markdown'' then (Process_markdown_cell, s)
              else if cell_type c = ord_str ''code'' then (Process_code_cell, s)
              else
                (let s1 = append_cell c s in
                 if current_cell_index s1 \<ge> total_cells s1 then (Rebuild_notebook, s1)
                 else (case py_index cs (current_cell_index s1) of
                    None \<Rightarrow> (END, set_error (Error_in_routing IndexError) s1)
                  | Some next_cell \<Rightarrow> (route_by_type next_cell, s1))))))"

text \<open>Lines 259-287.\<close>

definition skip_unsupported_cell :: "state \<Rightarrow> state" where
  "skip_unsupported_cell s =
     (case cells (notebook_content s) of
        None \<Rightarrow> set_error (Error_skipping_cell (KeyError (ord_str ''cells''))) s
      | Some cs \<Rightarrow>
          if current_cell_index s \<ge> int (length cs) then s
          else (case py_index cs (current_cell_index s) of
             None \<Rightarrow> set_error (Error_skipping_cell IndexError) s
           | Some c \<Rightarrow> append_cell c s))"


section \<open>notebook\_io.py\<close>

text \<open>Lines 10-53. Opening the file and \<^verbatim>\<open>nbformat.read\<close> are \<open>nbformat_read\<close>;
  \<^verbatim>\<open>notebook_content.cells\<close> on a notebook without cells raises inside the \<^verbatim>\<open>try\<close>, before
  the state is updated.\<close>

definition load_and_parse_notebook :: "env \<Rightarrow> state \<Rightarrow> state" where
  "load_and_parse_notebook w s =
     (if \<not> path_exists w (input_path s) then
        set_error (Input_file_not_found (input_path s)) s
      else
        (case nbformat_read w (input_path s) of
           Inl e \<Rightarrow> set_error (Error_loading_notebook e) s
         | Inr nb \<Rightarrow>
            (case cells nb of
               None \<Rightarrow> set_error (Error_loading_notebook (Exception (ord_str ''cells''))) s
             | Some cs \<Rightarrow>
                 s\<lparr>notebook_content := nb,
                   output_path := translated_path w (input_path s),
                   processed_cells := [],
                   current_cell_index := 0,
                   total_cells := int (length cs),
                   error_message := None\<rparr>)))"

text \<open>Lines 55-92. The second component is the file written: its path and the document.\<close>

type_synonym written = "(pystr \<times> notebook) option"

definition rebuild_notebook :: "env \<Rightarrow> state \<Rightarrow> state \<times> written" where
  "rebuild_notebook w s =
     (if error_message s \<noteq> None then (s, None)
      else
        (let output_notebook = (notebook_content s)\<lparr>cells := Some (processed_cells s)\<rparr> in
         case nbformat_write w (output_path s) output_notebook of
           Some e \<Rightarrow> (set_error (Error_saving_notebook e) s, None)
         | None \<Rightarrow> (s, Some (output_path s, output_notebook))))"


section \<open>workflow.py: the graph\<close>

text \<open>
  The graph of \<open>create_notebook_translator_workflow\<close> (lines 14-95): START leads to the
  loader; after the loader and after each of the three cell steps the router is
  evaluated and its answer selects the next node; after the rebuilder the run ends.

  The five nodes are registered with \<^verbatim>\<open>add_node\<close>: the dictionary a node returns is the
  state of the run from then on. \<open>route_cell_processing\<close> is registered only as the path
  function of \<^verbatim>\<open>add_conditional_edges\<close> (lines 38-87): the scheduler hands it the current
  state and uses nothing but the string it returns. The assignments the router makes to
  keys of the dictionary it was handed (\<^verbatim>\<open>state["current_cell_index"] += 1\<close> at line 236,
  \<^verbatim>\<open>state["error_message"] = ...\<close> at line 255) are therefore not part of the state the next
  node receives. Its \<^verbatim>\<open>state["processed_cells"].append(...)\<close> (line 235) changes the list
  object in place, and that list is the one the state of the run holds: the appended cell
  stays.

  A configuration is the position in the graph, the state, and the file written so far;
  the configurations a run passes through are the observation points between steps.
\<close>

datatype node = Load_node | Markdown_node | Code_node | Skip_node | Rebuild_node

datatype position = START | At node | Routing | FINISHED

type_synonym config = "position \<times> state \<times> written"

fun edge :: "route \<Rightarrow> position" where
  "edge END = FINISHED"
| "edge Rebuild_notebook = At Rebuild_node"
| "edge Process_markdown_cell = At Markdown_node"
| "edge Process_code_cell = At Code_node"
| "edge Skip_unsupported_cell = At Skip_node"

fun graph_step :: "env \<Rightarrow> config \<Rightarrow> config" where
  "graph_step w (START, s, out) = (At Load_node, s, out)"
| "graph_step w (At Load_node, s, out) = (Routing, load_and_parse_notebook w s, out)"
| "graph_step w (At Markdown_node, s, out) = (Routing, process_markdown_cell w s, out)"
| "graph_step w (At Code_node, s, out) = (Routing, process_code_cell w s, out)"
| "graph_step w (At Skip_node, s, out) = (Routing, skip_unsupported_cell s, out)"
| "graph_step w (At Rebuild_node, s, out) =
     (case rebuild_notebook w s of (s', out') \<Rightarrow> (FINISHED, s', out'))"
| "graph_step w (Routing, s, out) =
     (case route_cell_processing s of
        (r, s') \<Rightarrow> (edge r, s\<lparr>processed_cells := processed_cells s'\<rparr>, out))"
| "graph_step w (FINISHED, s, out) = (FINISHED, s, out)"

text \<open>One step of the scheduler runs a node and evaluates the edge that leaves it.\<close>

definition super_step :: "env \<Rightarrow> config \<Rightarrow> config" where
  "super_step w c =
     (let c1 = graph_step w c in if fst c1 = Routing then graph_step w c1 else c1)"

text \<open>\<^verbatim>\<open>workflow.invoke(initial_state, config={"recursion_limit": 100})\<close>: the run raises
  when the limit of steps is used up before the graph has ended.\<close>

fun invoke :: "env \<Rightarrow> nat \<Rightarrow> config \<Rightarrow> exn + state \<times> written" where
  "invoke w 0 c =
     (if fst c = FINISHED then Inr (snd c)
      else Inl (Exception (ord_str ''Recursion limit reached'')))"
| "invoke w (Suc n) c =
     (if fst c = FINISHED then Inr (snd c) else invoke w n (super_step w c))"

definition recursion_limit :: nat where
  "recursion_limit = 100"

definition initial_state :: "pystr \<Rightarrow> pystr \<Rightarrow> state" where
  "initial_state ip lang =
     \<lparr>input_path = ip,
      output_path = [],
      notebook_content = \<lparr>cells = None, nb_rest = []\<rparr>,
      processed_cells = [],
      target_language = lang,
      current_cell_index = 0,
      total_cells = 0,
      error_message = None\<rparr>"

text \<open>Lines 97-150: the final state and the file written, or the dictionary of the
  handler at line 144, which carries an error message.\<close>

datatype outcome = Final state written | Workflow_execution_failed exn

definition run_notebook_translation :: "env \<Rightarrow> pystr \<Rightarrow> pystr \<Rightarrow> outcome" where
  "run_notebook_translation w ip lang =
     (case invoke w recursion_limit (START, initial_state ip lang, None) of
        Inr (s, out) \<Rightarrow> Final s out
      | Inl e \<Rightarrow> Workflow_execution_failed e)"


section \<open>Notions used in the properties\<close>

text \<open>The result of the grouping loop, with the last section added (lines 70-71).\<close>

definition finish :: "pystr list \<times> pystr list list \<Rightarrow> pystr list list" where
  "finish p = (case p of (cur, secs) \<Rightarrow> if cur = [] then secs else secs @ [cur])"

text \<open>A cell that is neither markdown nor code (the last branch of the router).\<close>

definition unsupported :: "cell \<Rightarrow> bool" where
  "unsupported c \<longleftrightarrow> cell_type c \<noteq> ord_str ''markdown'' \<and> cell_type c \<noteq> ord_str ''code''"

text \<open>Exactly \<open>k\<close> consecutive unsupported cells start at position \<open>i\<close>: the run ends at a
  supported cell or at the end of the document.\<close>

definition unsupported_run :: "cell list \<Rightarrow> nat \<Rightarrow> nat \<Rightarrow> bool" where
  "unsupported_run cs i k \<longleftrightarrow>
     i + k \<le> length cs
     \<and> list_all unsupported (take k (drop i cs))
     \<and> (i + k < length cs \<longrightarrow> \<not> unsupported (cs ! (i + k)))"

text \<open>A state without error, loaded with the cells \<open>cs\<close>, whose index is \<open>i\<close>.\<close>

definition at_cell :: "state \<Rightarrow> cell list \<Rightarrow> nat \<Rightarrow> bool" where
  "at_cell s cs i \<longleftrightarrow>
     error_message s = None \<and> cells (notebook_content s) = Some cs
     \<and> total_cells s = int (length cs) \<and> current_cell_index s = int i"

text \<open>The state in which \<open>k\<close> cells from position \<open>i\<close> were copied unchanged to the output
  and the index was advanced past them.\<close>

definition copy_cells :: "cell list \<Rightarrow> nat \<Rightarrow> nat \<Rightarrow> state \<Rightarrow> state" where
  "copy_cells cs i k s =
     s\<lparr>processed_cells := processed_cells s @ take k (drop i cs),
       current_cell_index := int (i + k)\<rparr>"


section \<open>Concrete environments and inputs\<close>

text \<open>An environment in which every call to the outside fails: the chat completions and
  the HTTP request raise, no file exists.\<close>

definition offline_env :: env where
  "offline_env =
     \<lparr>chat_translate = (\<lambda>t l. Inl (Exception (ord_str ''Connection error.''))),
      chat_annotate = (\<lambda>t l. Inl (Exception (ord_str ''Connection error.''))),
      chat_describe = (\<lambda>t l. Inl (Exception (ord_str ''Connection error.''))),
      get_translation_label = (\<lambda>l. ord_str ''Translation''),
      get_description_label = (\<lambda>l. ord_str ''Image Description''),
      b64decode = (\<lambda>p. Inl (Exception (ord_str ''Incorrect padding''))),
      requests_get = (\<lambda>u t. Inl (Exception (ord_str ''Connection error.''))),
      path_exists = (\<lambda>p. False),
      read_file = (\<lambda>p. Inl (Exception (ord_str ''No such file or directory''))),
      abspath = (\<lambda>p. ord_str ''/work/'' @ p),
      dirname = (\<lambda>p. ord_str ''/work''),
      path_join = (\<lambda>d p. d @ ord_str ''/'' @ p),
      nbformat_read = (\<lambda>p. Inl (Exception (ord_str ''No such file''))),
      translated_path = (\<lambda>p. ord_str ''nb_translated.ipynb''),
      nbformat_write = (\<lambda>p nb. None)\<rparr>"

text \<open>An environment with one image file beside the notebook, a directory named like an
  image beside it, a server that answers 404, and a base64 decoder that knows one
  payload.\<close>

definition image_env :: env where
  "image_env = offline_env
     \<lparr>b64decode := (\<lambda>p. if p = ord_str ''aGk='' then Inr [104, 105]
                         else Inl (Exception (ord_str ''Incorrect padding''))),
      requests_get := (\<lambda>u t. Inr \<lparr>status_code = 404, content = []\<rparr>),
      path_exists := (\<lambda>p. p = ord_str ''/work/img.png'' \<or> p = ord_str ''/work/dir.png''),
      read_file := (\<lambda>p. if p = ord_str ''/work/img.png'' then Inr [137, 80, 78, 71]
                        else if p = ord_str ''/work/dir.png''
                        then Inl (Exception (ord_str ''Is a directory''))
                        else Inl (Exception (ord_str ''No such file or directory'')))\<rparr>"

text \<open>The same environment with a server that answers 304 with a body.\<close>

definition not_modified_env :: env where
  "not_modified_env = image_env
     \<lparr>requests_get := (\<lambda>u t. Inr \<lparr>status_code = 304, content = [1, 2, 3]\<rparr>)\<rparr>"

text \<open>The state after loading a notebook with the cells \<open>cs\<close>.\<close>

definition loaded_state :: "cell list \<Rightarrow> state" where
  "loaded_state cs =
     \<lparr>input_path = ord_str ''nb.ipynb'',
      output_path = ord_str ''nb_translated.ipynb'',
      notebook_content = \<lparr>cells = Some cs, nb_rest = []\<rparr>,
      processed_cells = [],
      target_language = ord_str ''Chinese'',
      current_cell_index = 0,
      total_cells = int (length cs),
      error_message = None\<rparr>"

abbreviation one_cell_state :: "cell \<Rightarrow> state" where
  "one_cell_state c \<equiv> loaded_state [c]"

definition code_cell :: "cell_source \<Rightarrow> cell" where
  "code_cell src = \<lparr>cell_type = ord_str ''code'', source = src, cell_rest = []\<rparr>"

definition markdown_cell :: "cell_source \<Rightarrow> cell" where
  "markdown_cell src = \<lparr>cell_type = ord_str ''markdown'', source = src, cell_rest = []\<rparr>"

definition raw_cell :: "cell_source \<Rightarrow> cell" where
  "raw_cell src = \<lparr>cell_type = ord_str ''raw'', source = src, cell_rest = []\<rparr>"

text \<open>A notebook of three raw cells, a markdown cell and a code cell.\<close>

definition demo_cells :: "cell list" where
  "demo_cells =
     [raw_cell (Str (ord_str ''r1'')), raw_cell (Str (ord_str ''r2'')),
      raw_cell (Str (ord_str ''r3'')), markdown_cell (Str (ord_str ''Hi'')),
      code_cell (Str (ord_str ''x''))]"

text \<open>A notebook of two raw cells.\<close>

definition two_raw_cells :: "cell list" where
  "two_raw_cells = [raw_cell (Str (ord_str ''r1'')), raw_cell (Str (ord_str ''r2''))]"

text \<open>An environment whose input file holds a notebook with the cells \<open>cs\<close>.\<close>

definition notebook_env :: "cell list \<Rightarrow> env" where
  "notebook_env cs = offline_env
     \<lparr>path_exists := (\<lambda>p. p = ord_str ''nb.ipynb''),
      nbformat_read := (\<lambda>p. Inr \<lparr>cells = Some cs, nb_rest = []\<rparr>)\<rparr>"


section \<open>Lemmas on strings\<close>

lemmas string_eval =
  strip_def lstrip_def rstrip_def ord_str_def isspace_def suffix_def

lemma ord_fence: "ord_str ''```'' = [96, 96, 96]"
  by (simp add: ord_str_def)

lemma ord_fence_python: "ord_str ''```python'' = [96, 96, 96, 112, 121, 116, 104, 111, 110]"
  by (simp add: ord_str_def)

lemma length_lstrip: "length (lstrip s) \<le> length s"
  by (simp add: lstrip_def length_dropWhile_le)

lemma length_rstrip: "length (rstrip s) \<le> length s"
  unfolding rstrip_def using length_dropWhile_le [of isspace "rev s"] by simp

lemma length_strip: "length (strip s) \<le> length s"
  unfolding strip_def using length_rstrip [of "lstrip s"] length_lstrip [of s] by linarith

lemma lstrip_id: "s = [] \<or> \<not> isspace (hd s) \<Longrightarrow> lstrip s = s"
  by (cases s) (auto simp: lstrip_def)

lemma rstrip_id: "s = [] \<or> \<not> isspace (last s) \<Longrightarrow> rstrip s = s"
  by (cases s rule: rev_cases) (auto simp: rstrip_def)

lemma lstrip_hd: "lstrip s = [] \<or> \<not> isspace (hd (lstrip s))"
  unfolding lstrip_def by (metis hd_dropWhile)

lemma rstrip_last: "rstrip s = [] \<or> \<not> isspace (last (rstrip s))"
  unfolding rstrip_def by (metis hd_dropWhile last_rev rev_is_Nil_conv)

lemma rstrip_prefix: "prefix (rstrip s) s"
  unfolding rstrip_def
  by (metis prefixI rev_append rev_rev_ident takeWhile_dropWhile_id)

lemma rstrip_hd: "rstrip s \<noteq> [] \<Longrightarrow> hd (rstrip s) = hd s"
  using rstrip_prefix [of s] by (metis hd_append2 prefix_def)

lemma strip_ends: "strip s = [] \<or> (\<not> isspace (hd (strip s)) \<and> \<not> isspace (last (strip s)))"
  unfolding strip_def using rstrip_last [of "lstrip s"] lstrip_hd [of s] rstrip_hd [of "lstrip s"]
  by (metis rstrip_def rev.simps(1) dropWhile.simps(1))

lemma strip_id: "s = [] \<or> (\<not> isspace (hd s) \<and> \<not> isspace (last s)) \<Longrightarrow> strip s = s"
  unfolding strip_def by (metis lstrip_id rstrip_id)

lemma strip_strip: "strip (strip s) = strip s"
  using strip_ends [of s] by (rule strip_id)










lemma strip_fences_unfenced:
  assumes "\<not> prefix (ord_str ''```'') (strip r)" "\<not> suffix (ord_str ''```'') (strip r)"
  shows "strip_fences r = strip r"
proof -
  have "prefix (ord_str ''```'') (ord_str ''```python'')" by (simp add: ord_str_def)
  with assms(1) have "\<not> prefix (ord_str ''```python'') (strip r)"
    using prefix_order.trans by blast
  then show ?thesis using assms by (simp add: strip_fences_def Let_def strip_strip)
qed

lemma strip_fences_fixed:
  "strip_fences s = s \<longleftrightarrow>
     strip s = s \<and> \<not> prefix (ord_str ''```'') s \<and> \<not> suffix (ord_str ''```'') s"
proof -
  have len3: "length (ord_str ''```'') = 3" by (simp add: ord_str_def)
  have pp: "prefix (ord_str ''```'') (ord_str ''```python'')" by (simp add: ord_str_def)
  define e1 where "e1 = strip s"
  define e2 where "e2 = (if prefix (ord_str ''```python'') e1 then drop 9 e1
                else if prefix (ord_str ''```'') e1 then drop 3 e1 else e1)"
  define e3 where "e3 = (if suffix (ord_str ''```'') e2 then take (length e2 - 3) e2 else e2)"
  have sf: "strip_fences s = strip e3"
    by (simp add: strip_fences_def Let_def e1_def e2_def e3_def)
  have l1: "length e1 \<le> length s" unfolding e1_def by (rule length_strip)
  have l2: "length e2 \<le> length e1" unfolding e2_def by simp
  have l3: "length e3 \<le> length e2" unfolding e3_def by simp
  have l4: "length (strip e3) \<le> length e3" by (rule length_strip)
  show ?thesis
  proof
    assume fx: "strip_fences s = s"
    then have leq: "length (strip e3) = length s" using sf fx by simp
    then have eqs: "length e1 = length s" "length e2 = length e1" "length e3 = length e2"
      using l1 l2 l3 l4 by linarith+
    have "strip s = s" using fx sf strip_strip [of e3] by metis
    then have e1s: "e1 = s" by (simp add: e1_def)
    have np: "\<not> prefix (ord_str ''```'') s"
    proof
      assume p: "prefix (ord_str ''```'') s"
      then have "3 \<le> length s" using prefix_length_le len3 by metis
      then have "length e2 < length e1"
        using p e1s by (auto simp: e2_def)
      then show False using eqs by simp
    qed
    then have e2s: "e2 = s" using e1s pp prefix_order.trans by (auto simp: e2_def)
    have ns: "\<not> suffix (ord_str ''```'') s"
    proof
      assume p: "suffix (ord_str ''```'') s"
      then have "3 \<le> length s" using suffix_length_le len3 by metis
      then have "length e3 < length e2"
        using p e2s by (auto simp: e3_def)
      then show False using eqs by simp
    qed
    show "strip s = s \<and> \<not> prefix (ord_str ''```'') s \<and> \<not> suffix (ord_str ''```'') s"
      using \<open>strip s = s\<close> np ns by simp
  next
    assume a: "strip s = s \<and> \<not> prefix (ord_str ''```'') s \<and> \<not> suffix (ord_str ''```'') s"
    then show "strip_fences s = s"
      using strip_fences_unfenced [of s] by simp
  qed
qed


section \<open>The code cell: fence stripping\<close>

lemma strip_strip_fences: "strip (strip_fences r) = strip_fences r"
  by (simp add: strip_fences_def Let_def strip_strip)




text \<open>
  C8 as stated fails: one application removes one layer of fence markers, so an output
  that still begins or ends with a marker is changed by a second application.
\<close>

theorem strip_fences_not_idempotent_counterexample:
  "strip_fences (ord_str ''``````x'') = ord_str ''```x''
   \<and> strip_fences (strip_fences (ord_str ''``````x'')) = ord_str ''x''
   \<and> strip_fences (strip_fences (ord_str ''``````x'')) \<noteq> strip_fences (ord_str ''``````x'')"
  by (simp add: strip_fences_def string_eval)

text \<open>
  C8, amended: an output \<open>s\<close> of the fence-stripping step is returned unchanged by a second
  application exactly when \<open>s\<close> neither begins nor ends with the marker \<^verbatim>\<open>```\<close>.
\<close>

theorem strip_fences_idempotent_iff:
  "strip_fences (strip_fences r) = strip_fences r \<longleftrightarrow>
     \<not> prefix (ord_str ''```'') (strip_fences r) \<and> \<not> suffix (ord_str ''```'') (strip_fences r)"
  by (simp add: strip_fences_fixed strip_strip_fences)

theorem strip_fences_idempotent_iff_witness:
  "strip_fences (strip_fences (ord_str ''```python\<newline>x = 1\<newline>```'')) =
     strip_fences (ord_str ''```python\<newline>x = 1\<newline>```'')
   \<and> strip_fences (ord_str ''```python\<newline>x = 1\<newline>```'') = ord_str ''x = 1''"
proof -
  have v: "strip_fences (ord_str ''```python\<newline>x = 1\<newline>```'') = ord_str ''x = 1''"
    by (simp add: strip_fences_def string_eval)
  have "\<not> prefix (ord_str ''```'') (ord_str ''x = 1'')
      \<and> \<not> suffix (ord_str ''```'') (ord_str ''x = 1'')"
    by (simp add: string_eval)
  then show ?thesis
    using strip_fences_idempotent_iff [of "ord_str ''```python\<newline>x = 1\<newline>```''"]
    by (simp only: v simp_thms)
qed


section \<open>The code cell: a failing Gateway\<close>

lemma add_code_comments_never_raises: "\<exists>r. add_code_comments w code lang = Inr r"
  by (simp add: add_code_comments_def split: sum.split option.split)

lemma code_cell_source_on_failure:
  assumes "chat_annotate w (code_content_of src) lang = Inl e"
  shows "code_cell_source w lang src = Str (strip_fences (code_content_of src))"
  using assms by (simp add: code_cell_source_def add_code_comments_def)

text \<open>
  C2: when the chat completion behind \<open>add_code_comments\<close> raises, the method itself
  returns the joined code text (line 105) instead of raising, so the handler of
  \<open>process_code_cell\<close> that keeps \<^verbatim>\<open>original_source\<close> (lines 183-186) is never entered:
  the text goes through the trimming and fence clean-up and is stored as one string.
  A source with a trailing newline loses it, and a list of lines becomes a string.
\<close>

theorem process_code_cell_failing_gateway:
  "map source (processed_cells (process_code_cell offline_env
      (one_cell_state (code_cell (Str (ord_str ''x = 1\<newline>''))))))
     = [Str (ord_str ''x = 1'')]
   \<and> map source (processed_cells (process_code_cell offline_env
      (one_cell_state (code_cell (Lines [ord_str ''x = 1\<newline>''])))))
     = [Str (ord_str ''x = 1'')]"
  by (simp add: process_code_cell_def loaded_state_def code_cell_def py_index_def
      append_cell_def code_cell_source_def code_content_of_def add_code_comments_def
      offline_env_def strip_fences_def string_eval)


section \<open>The markdown cell: sections\<close>

lemma sections_of_finish: "sections_of ls = finish (group_lines ls [] [])"
  by (simp add: sections_of_def finish_def)

lemma group_lines_append:
  "group_lines (a @ b) cur secs = (case group_lines a cur secs of (c, s) \<Rightarrow> group_lines b c s)"
  by (induction a arbitrary: cur secs) (simp_all add: Let_def)

lemma finish_group_lines_acc:
  "finish (group_lines ls cur secs) = secs @ finish (group_lines ls cur [])"
proof (induction ls arbitrary: cur secs)
  case Nil
  show ?case by (simp add: finish_def)
next
  case (Cons l ls)
  show ?case
  proof (cases "is_blank l \<or> is_heading l")
    case True
    define c1 where "c1 = (if is_blank l then [] else [l])"
    define s0 where "s0 = (if cur = [] then [] else [cur])"
    have l: "group_lines (l # ls) cur secs = group_lines ls c1 (secs @ s0)"
      using True by (simp add: Let_def c1_def s0_def)
    have r: "group_lines (l # ls) cur [] = group_lines ls c1 s0"
      using True by (simp add: Let_def c1_def s0_def)
    have "finish (group_lines ls c1 (secs @ s0)) = (secs @ s0) @ finish (group_lines ls c1 [])"
      by (rule Cons.IH)
    moreover have "finish (group_lines ls c1 s0) = s0 @ finish (group_lines ls c1 [])"
      by (rule Cons.IH)
    ultimately show ?thesis by (simp only: l r append_assoc)
  next
    case False
    then show ?thesis using Cons.IH [of "cur @ [l]" secs] by simp
  qed
qed

lemma sections_of_blank:
  assumes "is_blank b"
  shows "sections_of (a @ b # c) = sections_of a @ sections_of c"
proof -
  obtain ca sa where g: "group_lines a [] [] = (ca, sa)" by (cases "group_lines a [] []")
  have "sections_of (a @ b # c) = finish (group_lines (b # c) ca sa)"
    by (simp add: sections_of_finish group_lines_append g)
  also have "\<dots> = finish (group_lines c [] (finish (ca, sa)))"
    using assms by (simp add: Let_def finish_def)
  also have "\<dots> = finish (ca, sa) @ finish (group_lines c [] [])"
    by (rule finish_group_lines_acc)
  finally show ?thesis by (simp add: sections_of_finish g)
qed

lemma heading_not_blank: "is_heading l \<Longrightarrow> \<not> is_blank l"
proof -
  assume "is_heading l"
  then obtain r where l: "l = 35 # r" by (auto simp: is_heading_def ord_str_def prefix_def)
  have "\<not> isspace 35" by (simp add: isspace_def)
  then have "lstrip l = l" by (simp add: l lstrip_def)
  moreover have "rstrip l \<noteq> []"
    using \<open>\<not> isspace 35\<close> by (auto simp: l rstrip_def dropWhile_append)
  ultimately show ?thesis by (simp add: is_blank_def strip_def)
qed

lemma sections_of_heading:
  assumes "is_heading h"
  shows "sections_of (a @ h # c) = sections_of a @ sections_of (h # c)"
proof -
  have nb: "\<not> is_blank h" using assms by (rule heading_not_blank)
  obtain ca sa where g: "group_lines a [] [] = (ca, sa)" by (cases "group_lines a [] []")
  have "sections_of (a @ h # c) = finish (group_lines (h # c) ca sa)"
    by (simp add: sections_of_finish group_lines_append g)
  also have "\<dots> = finish (group_lines c [h] (finish (ca, sa)))"
    using assms nb by (simp add: Let_def finish_def)
  also have "\<dots> = finish (ca, sa) @ finish (group_lines c [h] [])"
    by (rule finish_group_lines_acc)
  also have "finish (group_lines c [h] []) = sections_of (h # c)"
    using assms nb by (simp add: sections_of_finish Let_def)
  finally show ?thesis by (simp add: sections_of_finish g)
qed

lemma group_lines_ordinary:
  assumes "\<forall>l\<in>set body. \<not> is_blank l \<and> \<not> is_heading l"
  shows "group_lines body cur secs = (cur @ body, secs)"
  using assms by (induction body arbitrary: cur) simp_all

lemma sections_of_single:
  assumes "\<not> is_blank l" and "\<forall>x\<in>set body. \<not> is_blank x \<and> \<not> is_heading x"
  shows "sections_of (l # body) = [l # body]"
  using assms(1) group_lines_ordinary [OF assms(2)]
  by (simp add: sections_of_finish finish_def Let_def)

lemma concat_finish_group_lines:
  "concat (finish (group_lines ls cur secs)) = concat secs @ cur @ filter (\<lambda>l. \<not> is_blank l) ls"
proof (induction ls arbitrary: cur secs)
  case Nil
  show ?case by (simp add: finish_def)
next
  case (Cons l ls)
  show ?case
    using heading_not_blank [of l]
    by (auto simp: Cons.IH Let_def)
qed

lemma concat_sections_of: "concat (sections_of ls) = filter (\<lambda>l. \<not> is_blank l) ls"
  by (simp add: sections_of_finish concat_finish_group_lines)

lemma sections_of_Nil: "sections_of [] = []"
  by (simp add: sections_of_def)

text \<open>
  C5: the grouping of the lines of a markdown cell into sections. A blank line ends the
  section before it and is dropped; a heading line ends the section before it and is the
  first line of the next one; a run of lines without blank and heading lines, after a
  first line that is not blank, is one section; and the sections, concatenated, are the
  lines that are not blank, in their original order.
\<close>

theorem sections_of_spec:
  "(is_blank b \<longrightarrow> sections_of (a @ b # c) = sections_of a @ sections_of c)
   \<and> (is_heading h \<longrightarrow> sections_of (a @ h # c) = sections_of a @ sections_of (h # c))
   \<and> (\<not> is_blank l \<and> (\<forall>x\<in>set body. \<not> is_blank x \<and> \<not> is_heading x) \<longrightarrow>
        sections_of (l # body) = [l # body])
   \<and> sections_of [] = []
   \<and> concat (sections_of ls) = filter (\<lambda>x. \<not> is_blank x) ls"
  using sections_of_blank [of b a c] sections_of_heading [of h a c]
    sections_of_single [of l body] sections_of_Nil concat_sections_of [of ls]
  by blast

theorem sections_of_spec_witness:
  "sections_of (split_on newline (ord_str ''intro\<newline> \<newline># Title\<newline>Hello world'')) =
     [[ord_str ''intro''], [ord_str ''# Title'', ord_str ''Hello world'']]
   \<and> sections_of [ord_str ''intro''] @ sections_of [ord_str ''# Title'', ord_str ''Hello world''] =
     [[ord_str ''intro''], [ord_str ''# Title'', ord_str ''Hello world'']]
   \<and> sections_of [ord_str ''intro'', ord_str '' ''] @ sections_of [ord_str ''# Title'', ord_str ''Hello world''] =
     [[ord_str ''intro''], [ord_str ''# Title'', ord_str ''Hello world'']]
   \<and> concat (sections_of (split_on newline (ord_str ''intro\<newline> \<newline># Title\<newline>Hello world''))) =
     [ord_str ''intro'', ord_str ''# Title'', ord_str ''Hello world'']"
  using sections_of_spec [of "ord_str '' ''" "[ord_str ''intro'']"
      "[ord_str ''# Title'', ord_str ''Hello world'']" "ord_str ''# Title''"
      "ord_str ''# Title''" "[ord_str ''Hello world'']"
      "split_on newline (ord_str ''intro\<newline> \<newline># Title\<newline>Hello world'')"]
  by (simp add: sections_of_def is_blank_def is_heading_def newline_def string_eval)


section \<open>The markdown cell: the new source\<close>

lemma split_on_no_sep: "l \<in> set (split_on sep s) \<Longrightarrow> sep \<notin> set l"
proof (induction s arbitrary: l)
  case Nil
  then show ?case by simp
next
  case (Cons c cs)
  then show ?case
    by (cases "split_on sep cs") (auto split: if_splits)
qed

lemma sections_of_lines:
  assumes "sec \<in> set (sections_of ls)" and "l \<in> set sec"
  shows "l \<in> set ls \<and> \<not> is_blank l"
proof -
  have "l \<in> set (concat (sections_of ls))" using assms by auto
  then show ?thesis by (simp add: concat_sections_of)
qed

lemma not_blank_not_empty: "\<not> is_blank l \<Longrightarrow> l \<noteq> []"
  by (auto simp: is_blank_def strip_def lstrip_def rstrip_def)

lemma str_join_not_empty: "x \<noteq> [] \<Longrightarrow> str_join sep (x # xs) \<noteq> []"
  by (cases xs) simp_all

lemma ends_newline_iff: "suffix [newline] l \<longleftrightarrow> l \<noteq> [] \<and> last l = newline"
  by (cases l rule: rev_cases) (auto simp: suffix_def)

lemma last_not_newline: "l \<noteq> [] \<Longrightarrow> newline \<notin> set l \<Longrightarrow> last l \<noteq> newline"
  by (metis last_in_set)

lemma str_join_no_trailing_newline:
  assumes "\<forall>l\<in>set sec. l \<noteq> [] \<and> newline \<notin> set l"
  shows "\<not> suffix [newline] (str_join [newline] sec)"
  using assms
proof (induction sec rule: induct_list012)
  case 1
  show ?case by (simp add: ends_newline_iff)
next
  case (2 x)
  then show ?case using last_not_newline [of x] by (simp add: ends_newline_iff)
next
  case (3 x y ys)
  then have "str_join [newline] (y # ys) \<noteq> []" by (intro str_join_not_empty) simp
  moreover have "\<not> suffix [newline] (str_join [newline] (y # ys))" using 3 by simp
  ultimately show ?case by (simp add: ends_newline_iff)
qed

lemma ends_10_iff: "suffix [10] l \<longleftrightarrow> l \<noteq> [] \<and> last l = (10::nat)"
  using ends_newline_iff [of l] by (simp add: newline_def)

lemma isspace_newline: "isspace newline"
  by (simp add: isspace_def newline_def)

lemma strip_no_trailing_newline: "\<not> suffix [newline] (strip c)"
  using strip_ends [of c] isspace_newline by (auto simp: ends_newline_iff)

lemma translate_text_no_trailing_newline:
  assumes "translate_text w text lang = Inr t" and "\<not> suffix [newline] text"
  shows "\<not> suffix [newline] t"
  using assms strip_no_trailing_newline
  by (auto simp: translate_text_def split: sum.splits option.splits if_splits)

lemma describe_image_no_trailing_newline:
  assumes "describe_image w d lang = Inr t"
  shows "\<not> suffix [newline] t"
  using assms strip_no_trailing_newline
  by (auto simp: describe_image_def ends_10_iff newline_def ord_str_def
      split: sum.splits option.splits if_splits)

lemma bold_label_no_trailing_newline: "\<not> suffix [newline] (bold_label label)"
  by (simp add: bold_label_def ends_10_iff newline_def ord_str_def)

lemma image_lines_no_trailing_newline:
  assumes "l \<in> set (image_lines w lang ip m)"
  shows "\<not> suffix [newline] l"
proof -
  from assms consider "l = []" | "l = bold_label (get_description_label w lang)"
    | d where "describe_image w d lang = Inr l"
    by (auto simp: image_lines_def split: prod.splits sum.splits)
  then show ?thesis
  proof cases
    case 1
    then show ?thesis by (simp add: ends_newline_iff)
  next
    case 2
    then show ?thesis by (simp add: bold_label_no_trailing_newline)
  next
    case 3
    then show ?thesis by (rule describe_image_no_trailing_newline)
  qed
qed

lemma translate_text_returns: "\<exists>t. translate_text w x lang = Inr t"
  by (simp add: translate_text_def split: sum.split option.split)

lemma translation_lines_no_trailing_newline:
  assumes "\<forall>l\<in>set sec. l \<noteq> [] \<and> newline \<notin> set l"
    and "l \<in> set (translation_lines w lang sec)"
  shows "\<not> suffix [newline] l"
proof -
  have j: "\<not> suffix [newline] (str_join [newline] sec)"
    using assms(1) by (rule str_join_no_trailing_newline)
  obtain t where t: "translate_text w (str_join [newline] sec) lang = Inr t"
    using translate_text_returns by blast
  have "translation_lines w lang sec = []
      \<or> translation_lines w lang sec = [[], bold_label (get_translation_label w lang), t]"
    by (simp add: translation_lines_def t)
  then have "l = [] \<or> l = bold_label (get_translation_label w lang)
      \<or> translate_text w (str_join [newline] sec) lang = Inr l"
    using assms(2) t by auto
  then consider "l = []" | "l = bold_label (get_translation_label w lang)"
    | "translate_text w (str_join [newline] sec) lang = Inr l"
    by blast
  then show ?thesis
  proof cases
    case 1
    then show ?thesis by (simp add: ends_newline_iff)
  next
    case 2
    then show ?thesis by (simp add: bold_label_no_trailing_newline)
  next
    case 3
    show ?thesis by (rule translate_text_no_trailing_newline [OF 3 j])
  qed
qed

lemma process_section_no_trailing_newline:
  assumes "\<forall>l\<in>set sec. l \<noteq> [] \<and> newline \<notin> set l"
    and "l \<in> set (process_section w lang ip sec)"
  shows "\<not> suffix [newline] l"
proof -
  from assms(2) consider "l \<in> set sec"
    | m where "l \<in> set (image_lines w lang ip m)"
    | "l \<in> set (translation_lines w lang sec)"
    | "l = []"
    by (auto simp: process_section_def split: if_splits)
  then show ?thesis
  proof cases
    case 1
    then have "l \<noteq> []" "newline \<notin> set l" using assms(1) by auto
    then show ?thesis using last_not_newline [of l] by (simp add: ends_newline_iff)
  next
    case 2
    then show ?thesis by (rule image_lines_no_trailing_newline)
  next
    case 3
    then show ?thesis using assms(1) translation_lines_no_trailing_newline by blast
  next
    case 4
    then show ?thesis by (simp add: ends_newline_iff)
  qed
qed

lemma markdown_source_lines_no_trailing_newline:
  assumes "l \<in> set (markdown_source_lines w lang ip src)"
  shows "\<not> suffix [newline] l"
proof -
  let ?ls = "split_on newline (source_text_of src)"
  from assms obtain sec where sec: "sec \<in> set (sections_of ?ls)"
    and l: "l \<in> set (process_section w lang ip sec)"
    by (auto simp: markdown_source_lines_def)
  have "\<forall>x\<in>set sec. x \<noteq> [] \<and> newline \<notin> set x"
    using sections_of_lines [OF sec] split_on_no_sep not_blank_not_empty by blast
  then show ?thesis using l by (rule process_section_no_trailing_newline)
qed

lemma markdown_source_lines_empty:
  "markdown_source_lines w lang ip (Str []) = []" "markdown_source_lines w lang ip (Lines []) = []"
  by (simp_all add: markdown_source_lines_def source_text_of_def sections_of_def is_blank_def
      string_eval)

lemma py_index_in_range: "0 \<le> i \<Longrightarrow> i < int (length xs) \<Longrightarrow> py_index xs i = Some (xs ! nat i)"
  by (simp add: py_index_def)

lemma process_markdown_cell_ok:
  assumes "cells (notebook_content s) = Some cs"
    and "0 \<le> current_cell_index s" and "current_cell_index s < int (length cs)"
    and "cell_type (cs ! nat (current_cell_index s)) = ord_str ''markdown''"
  shows "process_markdown_cell w s =
     append_cell ((cs ! nat (current_cell_index s))
       \<lparr>source := Lines (markdown_source_lines w (target_language s) (Some (input_path s))
          (source (cs ! nat (current_cell_index s))))\<rparr>) s"
  using assms by (simp add: process_markdown_cell_def py_index_in_range)

text \<open>
  C9 as stated fails for the empty string: the new source is always the list
  \<^verbatim>\<open>new_source_lines\<close> (line 118), so the source \<^verbatim>\<open>""\<close> becomes \<^verbatim>\<open>[]\<close>.
\<close>

theorem process_markdown_cell_empty_string_counterexample:
  "map source (processed_cells (process_markdown_cell offline_env
      (one_cell_state (markdown_cell (Str []))))) = [Lines []]
   \<and> map source (processed_cells (process_markdown_cell offline_env
      (one_cell_state (markdown_cell (Str []))))) \<noteq> [Str []]"
  by (simp add: process_markdown_cell_def loaded_state_def markdown_cell_def py_index_def
      append_cell_def markdown_source_lines_empty)

text \<open>
  C9, amended: for a markdown cell whose source is empty (the empty string or the empty
  list of lines) there are no sections and no content is added: the cell is appended
  with the empty list of lines as its source. A cell whose source was the empty list
  passes through unchanged; for the empty string the representation changes to the empty
  list.
\<close>

theorem process_markdown_cell_empty_source:
  assumes "cells (notebook_content s) = Some cs"
    and "0 \<le> current_cell_index s" and "current_cell_index s < int (length cs)"
    and "cs ! nat (current_cell_index s) = c"
    and "cell_type c = ord_str ''markdown''"
    and "source c = Str [] \<or> source c = Lines []"
  shows "sections_of (split_on newline (source_text_of (source c))) = []
    \<and> process_markdown_cell w s = append_cell (c\<lparr>source := Lines []\<rparr>) s
    \<and> (source c = Lines [] \<longrightarrow> process_markdown_cell w s = append_cell c s)"
proof -
  have sec: "sections_of (split_on newline (source_text_of (source c))) = []"
    using assms(6)
    by (auto simp: source_text_of_def sections_of_def is_blank_def string_eval)
  have src: "markdown_source_lines w (target_language s) (Some (input_path s)) (source c) = []"
    using assms(6) markdown_source_lines_empty by metis
  have run: "process_markdown_cell w s = append_cell (c\<lparr>source := Lines []\<rparr>) s"
    using process_markdown_cell_ok [of s cs w] assms(1-5) src by simp
  have "source c = Lines [] \<Longrightarrow> c\<lparr>source := Lines []\<rparr> = c" by simp
  then show ?thesis using sec run by metis
qed

theorem process_markdown_cell_empty_source_witness:
  "sections_of (split_on newline (source_text_of (Lines []))) = []
   \<and> process_markdown_cell offline_env (one_cell_state (markdown_cell (Lines []))) =
       append_cell (markdown_cell (Lines [])) (one_cell_state (markdown_cell (Lines [])))
   \<and> processed_cells (process_markdown_cell offline_env (one_cell_state (markdown_cell (Lines []))))
       = [markdown_cell (Lines [])]"
  using process_markdown_cell_empty_source [of "one_cell_state (markdown_cell (Lines []))"
      "[markdown_cell (Lines [])]" "markdown_cell (Lines [])" offline_env]
  by (simp add: loaded_state_def markdown_cell_def append_cell_def)

text \<open>
  C10: whenever \<open>process_markdown_cell\<close> records no error, it has appended the current
  cell with a list of lines as its source, namely \<open>markdown_source_lines\<close> of the
  original source; no entry of that list ends with a newline character; so the new
  source differs from an original source that was a single string, and from one that
  was a list with an entry ending in a newline.
\<close>

theorem process_markdown_cell_source_lines:
  assumes "error_message s = None" and "error_message (process_markdown_cell w s) = None"
  shows "\<exists>cs c ls. cells (notebook_content s) = Some cs
      \<and> py_index cs (current_cell_index s) = Some c
      \<and> ls = markdown_source_lines w (target_language s) (Some (input_path s)) (source c)
      \<and> process_markdown_cell w s = append_cell (c\<lparr>source := Lines ls\<rparr>) s
      \<and> (\<forall>l\<in>set ls. \<not> suffix [newline] l)
      \<and> (\<forall>t. source c = Str t \<longrightarrow> Lines ls \<noteq> source c)
      \<and> (\<forall>ls0. source c = Lines ls0 \<and> (\<exists>l\<in>set ls0. suffix [newline] l) \<longrightarrow> Lines ls \<noteq> source c)"
proof -
  from assms obtain cs c where cs: "cells (notebook_content s) = Some cs"
    and c: "py_index cs (current_cell_index s) = Some c"
    and run: "process_markdown_cell w s =
      append_cell (c\<lparr>source := Lines (markdown_source_lines w (target_language s)
        (Some (input_path s)) (source c))\<rparr>) s"
    by (auto simp: process_markdown_cell_def set_error_def split: option.splits if_splits)
  let ?ls = "markdown_source_lines w (target_language s) (Some (input_path s)) (source c)"
  have nl: "\<forall>l\<in>set ?ls. \<not> suffix [newline] l"
    using markdown_source_lines_no_trailing_newline by blast
  have "\<forall>ls0. source c = Lines ls0 \<and> (\<exists>l\<in>set ls0. suffix [newline] l) \<longrightarrow> Lines ?ls \<noteq> source c"
    using nl by auto
  moreover have "\<forall>t. source c = Str t \<longrightarrow> Lines ?ls \<noteq> source c" by auto
  ultimately show ?thesis using cs c run nl by blast
qed

lemma markdown_source_lines_example: "markdown_source_lines offline_env (ord_str ''Chinese'') (Some (ord_str ''nb.ipynb''))
       (Lines [ord_str ''# Title\<newline>'', ord_str ''Hello'']) =
       [ord_str ''# Title'', ord_str ''Hello'', [], bold_label (ord_str ''Translation''),
        ord_str ''# Title\<newline>Hello'', []]"
  by (simp add: markdown_source_lines_def source_text_of_def sections_of_def is_blank_def
      is_heading_def process_section_def translation_lines_def has_text_def translate_text_def
      match_image_def newline_def offline_env_def string_eval)

theorem process_markdown_cell_source_lines_witness:
  "error_message (one_cell_state (markdown_cell (Lines [ord_str ''# Title\<newline>'', ord_str ''Hello'']))) = None
   \<and> error_message (process_markdown_cell offline_env
        (one_cell_state (markdown_cell (Lines [ord_str ''# Title\<newline>'', ord_str ''Hello''])))) = None
   \<and> map source (processed_cells (process_markdown_cell offline_env
        (one_cell_state (markdown_cell (Lines [ord_str ''# Title\<newline>'', ord_str ''Hello''])))))
      = [Lines [ord_str ''# Title'', ord_str ''Hello'', [], bold_label (ord_str ''Translation''),
           ord_str ''# Title\<newline>Hello'', []]]"
proof -
  let ?s = "one_cell_state (markdown_cell (Lines [ord_str ''# Title\<newline>'', ord_str ''Hello'']))"
  have run: "process_markdown_cell offline_env ?s =
      append_cell (markdown_cell (Lines [ord_str ''# Title'', ord_str ''Hello'', [],
         bold_label (ord_str ''Translation''), ord_str ''# Title\<newline>Hello'', []])) ?s"
    using markdown_source_lines_example
    by (simp add: process_markdown_cell_def loaded_state_def markdown_cell_def py_index_def)
  have e: "error_message ?s = None" "error_message (process_markdown_cell offline_env ?s) = None"
    by (simp_all add: run) (simp_all add: loaded_state_def append_cell_def)
  show ?thesis
    using process_markdown_cell_source_lines [OF e] e
    by (simp add: run) (simp add: append_cell_def loaded_state_def markdown_cell_def)
qed


section \<open>The Image Resolver\<close>

lemma split_on_no_sep_id: "sep \<notin> set s \<Longrightarrow> split_on sep s = [s]"
  by (induction s) auto

lemma split_on_first: "sep \<notin> set a \<Longrightarrow> split_on sep (a @ sep # b) = a # split_on sep b"
  by (induction a) auto

lemma data_payload:
  assumes "44 \<notin> set mime" and "44 \<notin> set payload"
  shows "py_index (split_on 44 (ord_str ''data:image/'' @ mime @ [44] @ payload)) 1 = Some payload"
proof -
  have "44 \<notin> set (ord_str ''data:image/'' @ mime)" using assms(1) by (simp add: ord_str_def)
  then have "split_on 44 ((ord_str ''data:image/'' @ mime) @ 44 # payload) =
      (ord_str ''data:image/'' @ mime) # split_on 44 payload"
    by (rule split_on_first)
  then show ?thesis using split_on_no_sep_id [OF assms(2)] by (simp add: py_index_def)
qed

lemma data_not_http:
  assumes "prefix (ord_str ''data:image/'') src"
  shows "\<not> prefix (ord_str ''http://'') src" "\<not> prefix (ord_str ''https://'') src"
  using assms by (auto simp: prefix_def ord_str_def)

lemma get_image_data_embedded:
  assumes "prefix (ord_str ''data:image/'') src"
  shows "get_image_data w src ip =
    ([], case py_index (split_on 44 src) 1 of None \<Rightarrow> Inl IndexError | Some p \<Rightarrow> b64decode w p)"
  using assms by (simp add: get_image_data_def split: option.split)

lemma get_image_data_url:
  assumes "prefix (ord_str ''http://'') src \<or> prefix (ord_str ''https://'') src"
  shows "get_image_data w src ip =
    ([Http_get src 30],
     case requests_get w src 30 of
       Inl e \<Rightarrow> Inl e
     | Inr r \<Rightarrow> (case raise_for_status r of Some e \<Rightarrow> Inl e | None \<Rightarrow> Inr (content r)))"
proof -
  have "\<not> prefix (ord_str ''data:image/'') src"
    using assms data_not_http by blast
  then show ?thesis using assms by (simp add: get_image_data_def)
qed

lemma get_image_data_local:
  assumes "\<not> prefix (ord_str ''data:image/'') src"
    and "\<not> prefix (ord_str ''http://'') src" and "\<not> prefix (ord_str ''https://'') src"
  shows "get_image_data w src ip =
    (if path_exists w src then ([Path_exists src, Read_file src], read_file w src)
     else
       (case ip of
          Some p \<Rightarrow>
            (if path_exists w (path_join w (dirname w (abspath w p)) src) then
               ([Path_exists src, Path_exists (path_join w (dirname w (abspath w p)) src),
                 Read_file (path_join w (dirname w (abspath w p)) src)],
                read_file w (path_join w (dirname w (abspath w p)) src))
             else
               ([Path_exists src, Path_exists (path_join w (dirname w (abspath w p)) src)],
                Inl (FileNotFoundError (not_found_message src (dirname w (abspath w p))))))
        | None \<Rightarrow> ([Path_exists src], Inl (FileNotFoundError (ord_str ''Image file not found: '' @ src)))))"
  using assms by (simp add: get_image_data_def Let_def split: option.split)

lemma not_found_message_names:
  "sublist src (not_found_message src dir)" "sublist dir (not_found_message src dir)"
  unfolding not_found_message_def
  by (rule sublist_appendI) (metis append.assoc sublist_appendI)

lemma raise_for_status_iff:
  "raise_for_status r = None \<longleftrightarrow> \<not> (400 \<le> status_code r \<and> status_code r < 600)"
  by (simp add: raise_for_status_def)

text \<open>
  C4 as stated fails in two places. The status check raises for 400 to 599 only, so a
  response with another status outside 200..299 (here 304) is returned as the image. And
  a path that is absent as given and present in the directory of the notebook is opened
  there, but opening can fail (here the path is a directory), and then the call raises.
\<close>

theorem get_image_data_status_and_read_counterexample:
  "get_image_data not_modified_env (ord_str ''https://example.org/a.png'') (Some (ord_str ''nb.ipynb''))
     = ([Http_get (ord_str ''https://example.org/a.png'') 30], Inr [1, 2, 3])
   \<and> path_exists image_env (ord_str ''/work/dir.png'')
   \<and> get_image_data image_env (ord_str ''dir.png'') (Some (ord_str ''nb.ipynb''))
     = ([Path_exists (ord_str ''dir.png''), Path_exists (ord_str ''/work/dir.png''),
         Read_file (ord_str ''/work/dir.png'')], Inl (Exception (ord_str ''Is a directory'')))"
  by (simp add: get_image_data_def raise_for_status_def not_modified_env_def image_env_def
      offline_env_def Let_def ord_str_def)

text \<open>
  C4, amended: the dispatch of \<open>get_image_data\<close>, for every reference \<open>src\<close>.
  A reference that begins with \<^verbatim>\<open>data:image/\<close> performs no access to the network or the
  file system, and with a payload after its comma the result is the decoding of that
  payload. A reference that begins with \<^verbatim>\<open>http://\<close> or \<^verbatim>\<open>https://\<close> performs one request
  with timeout 30 and nothing else; an exception of the request is the result, a
  response with a status from 400 to 599 is a failure, and a response with any other
  status gives its content. Any other reference is looked up as given and, when it
  exists, read (the result is what reading gives, bytes or the exception); when absent
  and a notebook path is known, it is looked up in the directory of the notebook, and
  when it exists there it is read there; absent in both places the result is the
  not-found error whose message contains the reference and the directory.
\<close>

theorem get_image_data_dispatch:
  "(prefix (ord_str ''data:image/'') src \<longrightarrow> fst (get_image_data w src ip) = [])
    \<and> (44 \<notin> set mime \<and> 44 \<notin> set payload \<longrightarrow>
         get_image_data w (ord_str ''data:image/'' @ mime @ [44] @ payload) ip =
           ([], b64decode w payload))
    \<and> (prefix (ord_str ''http://'') src \<or> prefix (ord_str ''https://'') src \<longrightarrow>
         fst (get_image_data w src ip) = [Http_get src 30]
         \<and> (\<forall>e. requests_get w src 30 = Inl e \<longrightarrow> snd (get_image_data w src ip) = Inl e)
         \<and> (\<forall>r. requests_get w src 30 = Inr r \<and> 400 \<le> status_code r \<and> status_code r < 600
               \<longrightarrow> isl (snd (get_image_data w src ip)))
         \<and> (\<forall>r. requests_get w src 30 = Inr r \<and> \<not> (400 \<le> status_code r \<and> status_code r < 600)
               \<longrightarrow> snd (get_image_data w src ip) = Inr (content r)))
    \<and> (\<not> prefix (ord_str ''data:image/'') src \<and> \<not> prefix (ord_str ''http://'') src
         \<and> \<not> prefix (ord_str ''https://'') src \<longrightarrow>
         (path_exists w src \<longrightarrow>
            get_image_data w src ip = ([Path_exists src, Read_file src], read_file w src))
         \<and> (\<forall>p. \<not> path_exists w src \<and> ip = Some p
               \<and> path_exists w (path_join w (dirname w (abspath w p)) src) \<longrightarrow>
            get_image_data w src ip =
              ([Path_exists src, Path_exists (path_join w (dirname w (abspath w p)) src),
                Read_file (path_join w (dirname w (abspath w p)) src)],
               read_file w (path_join w (dirname w (abspath w p)) src)))
         \<and> (\<forall>p. \<not> path_exists w src \<and> ip = Some p
               \<and> \<not> path_exists w (path_join w (dirname w (abspath w p)) src) \<longrightarrow>
            get_image_data w src ip =
              ([Path_exists src, Path_exists (path_join w (dirname w (abspath w p)) src)],
               Inl (FileNotFoundError (not_found_message src (dirname w (abspath w p)))))
            \<and> sublist src (not_found_message src (dirname w (abspath w p)))
            \<and> sublist (dirname w (abspath w p)) (not_found_message src (dirname w (abspath w p)))))"
proof -
  have a: "prefix (ord_str ''data:image/'') src \<longrightarrow> fst (get_image_data w src ip) = []"
    by (simp add: get_image_data_embedded)
  have b: "44 \<notin> set mime \<and> 44 \<notin> set payload \<longrightarrow>
         get_image_data w (ord_str ''data:image/'' @ mime @ [44] @ payload) ip =
           ([], b64decode w payload)"
    using data_payload [of mime payload]
    by (simp add: get_image_data_embedded)
  have c: "prefix (ord_str ''http://'') src \<or> prefix (ord_str ''https://'') src \<longrightarrow>
         fst (get_image_data w src ip) = [Http_get src 30]
         \<and> (\<forall>e. requests_get w src 30 = Inl e \<longrightarrow> snd (get_image_data w src ip) = Inl e)
         \<and> (\<forall>r. requests_get w src 30 = Inr r \<and> 400 \<le> status_code r \<and> status_code r < 600
               \<longrightarrow> isl (snd (get_image_data w src ip)))
         \<and> (\<forall>r. requests_get w src 30 = Inr r \<and> \<not> (400 \<le> status_code r \<and> status_code r < 600)
               \<longrightarrow> snd (get_image_data w src ip) = Inr (content r))"
  proof
    assume u: "prefix (ord_str ''http://'') src \<or> prefix (ord_str ''https://'') src"
    show "fst (get_image_data w src ip) = [Http_get src 30]
         \<and> (\<forall>e. requests_get w src 30 = Inl e \<longrightarrow> snd (get_image_data w src ip) = Inl e)
         \<and> (\<forall>r. requests_get w src 30 = Inr r \<and> 400 \<le> status_code r \<and> status_code r < 600
               \<longrightarrow> isl (snd (get_image_data w src ip)))
         \<and> (\<forall>r. requests_get w src 30 = Inr r \<and> \<not> (400 \<le> status_code r \<and> status_code r < 600)
               \<longrightarrow> snd (get_image_data w src ip) = Inr (content r))"
      by (auto simp: get_image_data_url [OF u] raise_for_status_def)
  qed
  have d: "\<not> prefix (ord_str ''data:image/'') src \<and> \<not> prefix (ord_str ''http://'') src
         \<and> \<not> prefix (ord_str ''https://'') src \<longrightarrow>
         (path_exists w src \<longrightarrow>
            get_image_data w src ip = ([Path_exists src, Read_file src], read_file w src))
         \<and> (\<forall>p. \<not> path_exists w src \<and> ip = Some p
               \<and> path_exists w (path_join w (dirname w (abspath w p)) src) \<longrightarrow>
            get_image_data w src ip =
              ([Path_exists src, Path_exists (path_join w (dirname w (abspath w p)) src),
                Read_file (path_join w (dirname w (abspath w p)) src)],
               read_file w (path_join w (dirname w (abspath w p)) src)))
         \<and> (\<forall>p. \<not> path_exists w src \<and> ip = Some p
               \<and> \<not> path_exists w (path_join w (dirname w (abspath w p)) src) \<longrightarrow>
            get_image_data w src ip =
              ([Path_exists src, Path_exists (path_join w (dirname w (abspath w p)) src)],
               Inl (FileNotFoundError (not_found_message src (dirname w (abspath w p)))))
            \<and> sublist src (not_found_message src (dirname w (abspath w p)))
            \<and> sublist (dirname w (abspath w p)) (not_found_message src (dirname w (abspath w p))))"
    using not_found_message_names by (simp add: get_image_data_local)
  show ?thesis using a b c d by (intro conjI)
qed

theorem get_image_data_dispatch_witness:
  "get_image_data image_env (ord_str ''data:image/png;base64,aGk='') (Some (ord_str ''nb.ipynb''))
     = ([], Inr [104, 105])
   \<and> get_image_data image_env (ord_str ''https://example.org/a.png'') (Some (ord_str ''nb.ipynb''))
     = ([Http_get (ord_str ''https://example.org/a.png'') 30], Inl (Exception (ord_str ''HTTPError'')))
   \<and> get_image_data image_env (ord_str ''img.png'') (Some (ord_str ''nb.ipynb''))
     = ([Path_exists (ord_str ''img.png''), Path_exists (ord_str ''/work/img.png''),
         Read_file (ord_str ''/work/img.png'')], Inr [137, 80, 78, 71])
   \<and> get_image_data image_env (ord_str ''gone.png'') (Some (ord_str ''nb.ipynb''))
     = ([Path_exists (ord_str ''gone.png''), Path_exists (ord_str ''/work/gone.png'')],
        Inl (FileNotFoundError (not_found_message (ord_str ''gone.png'') (ord_str ''/work''))))"
proof -
  have paths: "abspath image_env (ord_str ''nb.ipynb'') = ord_str ''/work/nb.ipynb''"
    "dirname image_env (ord_str ''/work/nb.ipynb'') = ord_str ''/work''"
    "path_join image_env (ord_str ''/work'') (ord_str ''img.png'') = ord_str ''/work/img.png''"
    "path_join image_env (ord_str ''/work'') (ord_str ''gone.png'') = ord_str ''/work/gone.png''"
    by (simp_all add: image_env_def offline_env_def ord_str_def)
  have fs: "\<not> path_exists image_env (ord_str ''img.png'')"
    "path_exists image_env (ord_str ''/work/img.png'')"
    "read_file image_env (ord_str ''/work/img.png'') = Inr [137, 80, 78, 71]"
    "\<not> path_exists image_env (ord_str ''gone.png'')"
    "\<not> path_exists image_env (ord_str ''/work/gone.png'')"
    by (simp_all add: image_env_def offline_env_def ord_str_def)
  have ex: "b64decode image_env (ord_str ''aGk='') = Inr [104, 105]"
    "requests_get image_env (ord_str ''https://example.org/a.png'') 30 =
       Inr \<lparr>status_code = 404, content = []\<rparr>"
    "raise_for_status \<lparr>status_code = 404, content = []\<rparr> =
       Some (Exception (ord_str ''HTTPError''))"
    by (simp_all add: image_env_def offline_env_def raise_for_status_def)
  have pre: "\<not> prefix (ord_str ''data:image/'') (ord_str ''img.png'')"
    "\<not> prefix (ord_str ''http://'') (ord_str ''img.png'')"
    "\<not> prefix (ord_str ''https://'') (ord_str ''img.png'')"
    "\<not> prefix (ord_str ''data:image/'') (ord_str ''gone.png'')"
    "\<not> prefix (ord_str ''http://'') (ord_str ''gone.png'')"
    "\<not> prefix (ord_str ''https://'') (ord_str ''gone.png'')"
    "prefix (ord_str ''https://'') (ord_str ''https://example.org/a.png'')"
    "ord_str ''data:image/png;base64,aGk='' =
       ord_str ''data:image/'' @ ord_str ''png;base64'' @ [44] @ ord_str ''aGk=''"
    "44 \<notin> set (ord_str ''png;base64'')" "44 \<notin> set (ord_str ''aGk='')"
    by (simp_all add: ord_str_def)
  have url: "get_image_data image_env (ord_str ''https://example.org/a.png'')
        (Some (ord_str ''nb.ipynb'')) =
      ([Http_get (ord_str ''https://example.org/a.png'') 30], Inl (Exception (ord_str ''HTTPError'')))"
    by (simp add: get_image_data_url pre ex)
  show ?thesis
    using get_image_data_dispatch [of "ord_str ''img.png''" image_env "Some (ord_str ''nb.ipynb'')"
        "ord_str ''png;base64''" "ord_str ''aGk=''"]
      get_image_data_dispatch [of "ord_str ''gone.png''" image_env "Some (ord_str ''nb.ipynb'')"
        "ord_str ''png;base64''" "ord_str ''aGk=''"]
    by (simp add: pre paths fs ex url)
qed


section \<open>The router on a run of unsupported cells\<close>

lemma route_error: "error_message s \<noteq> None \<Longrightarrow> route_cell_processing s = (END, s)"
  by (simp add: route_cell_processing_def)

lemma route_done:
  "error_message s = None \<Longrightarrow> total_cells s \<le> current_cell_index s \<Longrightarrow>
   route_cell_processing s = (Rebuild_notebook, s)"
  by (simp add: route_cell_processing_def)

lemma route_supported:
  assumes "error_message s = None" and "cells (notebook_content s) = Some cs"
    and "0 \<le> current_cell_index s" and "current_cell_index s < total_cells s"
    and "total_cells s = int (length cs)"
    and "\<not> unsupported (cs ! nat (current_cell_index s))"
  shows "route_cell_processing s = (route_by_type (cs ! nat (current_cell_index s)), s)"
  using assms
  by (auto simp: route_cell_processing_def py_index_in_range unsupported_def route_by_type_def)

lemma route_unsupported:
  assumes "error_message s = None" and "cells (notebook_content s) = Some cs"
    and "0 \<le> current_cell_index s" and "current_cell_index s < total_cells s"
    and "total_cells s = int (length cs)"
    and "unsupported (cs ! nat (current_cell_index s))"
  shows "route_cell_processing s =
    (if total_cells s \<le> current_cell_index s + 1 then Rebuild_notebook
     else route_by_type (cs ! nat (current_cell_index s + 1)),
     append_cell (cs ! nat (current_cell_index s)) s)"
proof -
  let ?s1 = "append_cell (cs ! nat (current_cell_index s)) s"
  have s1: "current_cell_index ?s1 = current_cell_index s + 1" "total_cells ?s1 = total_cells s"
    by (simp_all add: append_cell_def)
  have nxt: "current_cell_index s + 1 < total_cells s \<Longrightarrow>
      py_index cs (current_cell_index s + 1) = Some (cs ! nat (current_cell_index s + 1))"
    using assms(3,5) by (intro py_index_in_range) simp_all
  have cur: "py_index cs (current_cell_index s) = Some (cs ! nat (current_cell_index s))"
    using assms(3,4,5) by (intro py_index_in_range) simp_all
  show ?thesis
    using assms(1,2,4,6) nxt
    by (auto simp: route_cell_processing_def cur unsupported_def Let_def s1)
qed

lemma route_by_type_cases:
  "route_by_type c = Skip_unsupported_cell \<longleftrightarrow> unsupported c"
  "route_by_type c \<noteq> END" "route_by_type c \<noteq> Rebuild_notebook"
  by (auto simp: route_by_type_def unsupported_def)

lemma append_cell_copy:
  assumes "at_cell s cs i" and "i < length cs"
  shows "append_cell (cs ! i) s = copy_cells cs i 1 s"
  using assms by (simp add: at_cell_def append_cell_def copy_cells_def take_Suc_conv_app_nth)

lemma unsupported_run_head:
  assumes "unsupported_run cs i (Suc k)"
  shows "i < length cs" "unsupported (cs ! i)" "unsupported_run cs (Suc i) k"
proof -
  show i: "i < length cs" using assms by (simp add: unsupported_run_def)
  then have d: "drop i cs = cs ! i # drop (Suc i) cs" by (simp add: Cons_nth_drop_Suc)
  show "unsupported (cs ! i)" using assms by (simp add: unsupported_run_def d)
  show "unsupported_run cs (Suc i) k" using assms by (simp add: unsupported_run_def d)
qed

lemma route_in_run:
  assumes "at_cell s cs i" and "unsupported_run cs i (Suc k)"
  shows "route_cell_processing s =
    (if length cs \<le> Suc i then Rebuild_notebook else route_by_type (cs ! Suc i),
     copy_cells cs i 1 s)"
proof -
  have i: "i < length cs" "unsupported (cs ! i)" using unsupported_run_head [OF assms(2)] by simp_all
  have n: "nat (int i + 1) = Suc i" by simp
  show ?thesis
    using assms(1) i route_unsupported [of s cs] append_cell_copy [OF assms(1) i(1)]
    by (simp add: at_cell_def n)
qed

lemmas model_eval =
  load_and_parse_notebook_def route_cell_processing_def route_by_type_def
  skip_unsupported_cell_def process_markdown_cell_def process_code_cell_def
  rebuild_notebook_def append_cell_def set_error_def py_index_def
  markdown_source_lines_def source_text_of_def sections_of_def is_blank_def is_heading_def
  process_section_def translation_lines_def has_text_def translate_text_def match_image_def
  code_cell_source_def code_content_of_def add_code_comments_def strip_fences_def
  newline_def

lemmas demo_eval =
  notebook_env_def offline_env_def demo_cells_def two_raw_cells_def loaded_state_def
  raw_cell_def markdown_cell_def code_cell_def initial_state_def

text \<open>
  C3 as stated fails: one routing decision copies one cell. For two unsupported cells the
  router copies the first, advances the index by one and answers
  \<^verbatim>\<open>skip_unsupported_cell\<close> (line 252): the index is not past the run.
\<close>

theorem route_two_unsupported_counterexample:
  "route_cell_processing (loaded_state [raw_cell (Str (ord_str ''r1'')), raw_cell (Str (ord_str ''r2''))])
     = (Skip_unsupported_cell,
        (loaded_state [raw_cell (Str (ord_str ''r1'')), raw_cell (Str (ord_str ''r2''))])
          \<lparr>processed_cells := [raw_cell (Str (ord_str ''r1''))], current_cell_index := 1\<rparr>)
   \<and> current_cell_index (snd (route_cell_processing
        (loaded_state [raw_cell (Str (ord_str ''r1'')), raw_cell (Str (ord_str ''r2''))]))) \<noteq> 2"
  by (simp add: model_eval demo_eval string_eval)

text \<open>
  C3, amended: for a run of two or more consecutive unsupported cells at the index, one
  routing decision copies only the first cell of the run unchanged to the end of the
  output sequence, advances the index in the state it was handed by one, which is still
  inside the run, and answers \<^verbatim>\<open>skip_unsupported_cell\<close>.
\<close>

theorem unsupported_run_routing:
  assumes "at_cell s cs i" and "unsupported_run cs i k" and "2 \<le> k"
  shows "route_cell_processing s = (Skip_unsupported_cell, copy_cells cs i 1 s)
    \<and> processed_cells (snd (route_cell_processing s)) = processed_cells s @ [cs ! i]
    \<and> current_cell_index (snd (route_cell_processing s)) = int i + 1
    \<and> current_cell_index (snd (route_cell_processing s)) < int (i + k)"
proof -
  obtain k' where k: "k = Suc (Suc k')"
    using assms(3) by (cases k) (auto simp: Suc_le_eq gr0_conv_Suc)
  have i: "i < length cs" using unsupported_run_head(1) assms(2) k by blast
  have r1: "unsupported_run cs (Suc i) (Suc k')"
    using assms(2) unsupported_run_head(3) k by blast
  have i1: "Suc i < length cs" "unsupported (cs ! Suc i)"
    using unsupported_run_head [OF r1] by simp_all
  have rt: "route_by_type (cs ! Suc i) = Skip_unsupported_cell"
    using i1(2) by (simp add: route_by_type_cases)
  have r: "route_cell_processing s = (Skip_unsupported_cell, copy_cells cs i 1 s)"
    using route_in_run [of s cs i "Suc k'"] assms(1,2) k i1(1) by (simp add: rt)
  have "processed_cells (copy_cells cs i 1 s) = processed_cells s @ [cs ! i]"
    using i by (simp add: copy_cells_def take_Suc_conv_app_nth)
  moreover have "current_cell_index (copy_cells cs i 1 s) = int i + 1"
    by (simp add: copy_cells_def)
  ultimately show ?thesis using r k by simp
qed

theorem unsupported_run_routing_witness:
  "route_cell_processing (loaded_state demo_cells) =
     (Skip_unsupported_cell,
      (loaded_state demo_cells)\<lparr>processed_cells := take 1 demo_cells, current_cell_index := 1\<rparr>)
   \<and> processed_cells (snd (route_cell_processing (loaded_state demo_cells))) =
       [raw_cell (Str (ord_str ''r1''))]
   \<and> current_cell_index (snd (route_cell_processing (loaded_state demo_cells))) = 1"
proof -
  have a: "at_cell (loaded_state demo_cells) demo_cells 0"
    by (simp add: at_cell_def loaded_state_def)
  have u: "unsupported_run demo_cells 0 3"
    by (simp add: unsupported_run_def unsupported_def demo_eval ord_str_def)
  have c: "copy_cells demo_cells 0 (Suc 0) (loaded_state demo_cells) =
      (loaded_state demo_cells)\<lparr>processed_cells := take 1 demo_cells, current_cell_index := 1\<rparr>"
    by (simp add: copy_cells_def loaded_state_def)
  have p: "processed_cells (loaded_state demo_cells) = []"
    "demo_cells ! 0 = raw_cell (Str (ord_str ''r1''))"
    "take (Suc 0) demo_cells = [raw_cell (Str (ord_str ''r1''))]"
    by (simp_all add: loaded_state_def demo_cells_def)
  have "(2::nat) \<le> 3" by simp
  from unsupported_run_routing [OF a u this] show ?thesis
    by (simp add: c p)
qed


section \<open>The graph: the router's index is not kept\<close>

lemma invoke_numeral:
  "invoke w (numeral k) c =
     (if fst c = FINISHED then Inr (snd c) else invoke w (pred_numeral k) (super_step w c))"
  by (simp add: numeral_eq_Suc)

text \<open>
  C1: for a notebook of two raw cells the run ends without an error and writes three
  cells. The router copies the first cell and answers \<^verbatim>\<open>skip_unsupported_cell\<close>; its
  index increment is not part of the state the skip step receives, so the skip step
  copies the first cell a second time; the router then copies the second cell and
  answers \<^verbatim>\<open>rebuild_notebook\<close>.
\<close>

theorem run_duplicates_unsupported_cell:
  "run_notebook_translation (notebook_env two_raw_cells) (ord_str ''nb.ipynb'') (ord_str ''Chinese'') =
     Final
       ((loaded_state two_raw_cells)
          \<lparr>processed_cells :=
             [raw_cell (Str (ord_str ''r1'')), raw_cell (Str (ord_str ''r1'')),
              raw_cell (Str (ord_str ''r2''))],
           current_cell_index := 1\<rparr>)
       (Some (ord_str ''nb_translated.ipynb'',
          \<lparr>cells = Some [raw_cell (Str (ord_str ''r1'')), raw_cell (Str (ord_str ''r1'')),
                         raw_cell (Str (ord_str ''r2''))],
           nb_rest = []\<rparr>))
   \<and> error_message (loaded_state two_raw_cells) = None
   \<and> length two_raw_cells = 2"
  by (simp add: run_notebook_translation_def recursion_limit_def invoke_numeral super_step_def
      model_eval demo_eval string_eval)

text \<open>
  C6: for a notebook whose only cell is a raw cell, the router copies the cell and
  answers \<^verbatim>\<open>rebuild_notebook\<close>; its index increment is not kept, so the rebuilder is entered,
  and the run ends, with index 0 and one output cell. For two raw cells the skip step is
  entered with index 0 and one output cell, and the run ends with index 1 and three.
\<close>

theorem index_behind_output_sequence:
  "(graph_step (notebook_env [raw_cell (Str (ord_str ''r1''))]) ^^ 3)
       (START, initial_state (ord_str ''nb.ipynb'') (ord_str ''Chinese''), None) =
     (At Rebuild_node,
      (loaded_state [raw_cell (Str (ord_str ''r1''))])
        \<lparr>processed_cells := [raw_cell (Str (ord_str ''r1''))]\<rparr>,
      None)
   \<and> current_cell_index (loaded_state [raw_cell (Str (ord_str ''r1''))]) = 0
   \<and> (graph_step (notebook_env two_raw_cells) ^^ 3)
       (START, initial_state (ord_str ''nb.ipynb'') (ord_str ''Chinese''), None) =
     (At Skip_node,
      (loaded_state two_raw_cells)\<lparr>processed_cells := [raw_cell (Str (ord_str ''r1''))]\<rparr>,
      None)"
  by (simp add: numeral_3_eq_3 model_eval demo_eval string_eval)

end
